theory Spec2Isabelle
  imports Complex_Main "HOL-Library.Multiset"
begin

section \<open>Python values and errors\<close>

text \<open>
  The exceptions the modelled code can raise. A function that can raise returns
  \<open>error + 'a\<close>, with \<open>Inl\<close> for the exception.
\<close>

datatype error =
  ValueError | IndexError | KeyError | TypeError | ZeroDivisionError | OverflowError

text \<open>Sequencing of fallible steps: the first exception ends the computation.\<close>

definition bind :: "error + 'a \<Rightarrow> ('a \<Rightarrow> error + 'b) \<Rightarrow> error + 'b" where
  "bind m f = (case m of Inl e \<Rightarrow> Inl e | Inr x \<Rightarrow> f x)"

text \<open>A list comprehension whose element expression can raise.\<close>

fun map_err :: "('a \<Rightarrow> error + 'b) \<Rightarrow> 'a list \<Rightarrow> error + 'b list" where
  "map_err f [] = Inr []"
| "map_err f (x # xs) =
     (case f x of Inl e \<Rightarrow> Inl e
      | Inr y \<Rightarrow> (case map_err f xs of Inl e \<Rightarrow> Inl e | Inr ys \<Rightarrow> Inr (y # ys)))"

text \<open>A \<open>for\<close> loop over a list whose body updates a state and can raise.\<close>

fun fold_err :: "('a \<Rightarrow> 's \<Rightarrow> error + 's) \<Rightarrow> 'a list \<Rightarrow> 's \<Rightarrow> error + 's" where
  "fold_err f [] s = Inr s"
| "fold_err f (x # xs) s =
     (case f x s of Inl e \<Rightarrow> Inl e | Inr s' \<Rightarrow> fold_err f xs s')"

text \<open>\<open>xs.index(x)\<close>: the first index of \<open>x\<close>, ValueError when \<open>x\<close> is absent.\<close>

fun list_index :: "'a list \<Rightarrow> 'a \<Rightarrow> error + nat" where
  "list_index [] x = Inl ValueError"
| "list_index (y # ys) x =
     (if y = x then Inr 0
      else (case list_index ys x of Inl e \<Rightarrow> Inl e | Inr i \<Rightarrow> Inr (Suc i)))"

text \<open>
  \<open>xs[i]\<close> for an integer \<open>i\<close>: an index from \<open>0\<close> up to the length reads from
  the front, one from minus the length up to \<open>-1\<close> reads from the back, and any other
  raises IndexError.
\<close>

definition getitem :: "'a list \<Rightarrow> int \<Rightarrow> error + 'a" where
  "getitem xs i =
     (if 0 \<le> i \<and> i < int (length xs) then Inr (xs ! nat i)
      else if - int (length xs) \<le> i \<and> i < 0 then Inr (xs ! nat (int (length xs) + i))
      else Inl IndexError)"

text \<open>\<open>range(n)\<close> for an integer \<open>n\<close>: empty when \<open>n \<le> 0\<close>.\<close>

definition py_range :: "int \<Rightarrow> int list" where
  "py_range n = map int [0..<nat n]"

text \<open>\<open>enumerate(xs)\<close>, the index counted from \<open>k\<close>.\<close>

fun enumerate_from :: "int \<Rightarrow> 'a list \<Rightarrow> (int \<times> 'a) list" where
  "enumerate_from k [] = []"
| "enumerate_from k (x # xs) = (k, x) # enumerate_from (k + 1) xs"

section \<open>theory.py\<close>

subsection \<open>Note\<close>

text \<open>
  A note has a name and a pitch. The source's pitch is a Python float; the model takes
  a real number for it, so the rounding error, the infinities and the NaN of the binary
  representation are outside the model. The one exception of the pitch computation,
  the OverflowError of the power in \<open>get_pitch\<close>, is modelled there.
\<close>

record Note =
  name :: string
  pitch :: real

text \<open>
  \<open>round(x, 0)\<close> on a float: the nearest integer, a tie going to the even neighbour.
\<close>

definition py_round :: "real \<Rightarrow> int" where
  "py_round x =
     (let f = \<lfloor>x\<rfloor>; d = x - of_int f
      in if d < 1 / 2 then f
         else if 1 / 2 < d then f + 1
         else if even f then f else f + 1)"

text \<open>\<open>Note.__eq__\<close>: the rounded pitches are compared, the names are not.\<close>

definition Note_eq :: "Note \<Rightarrow> Note \<Rightarrow> bool" where
  "Note_eq self other = (py_round (pitch self) = py_round (pitch other))"

definition Note_ne :: "Note \<Rightarrow> Note \<Rightarrow> bool" where
  "Note_ne self other = (\<not> Note_eq self other)"

text \<open>
  \<open>Note.__hash__\<close> is \<open>hash((self.name, round(self.pitch, 0)))\<close>. Python's built-in
  hash of the tuple is the parameter \<open>H\<close>: its values depend on the interpreter and,
  for strings, on the process, while every property below depends only on which
  tuples it maps to the same value.
\<close>

definition Note_hash :: "(string \<times> int \<Rightarrow> 'h) \<Rightarrow> Note \<Rightarrow> 'h" where
  "Note_hash H self = H (name self, py_round (pitch self))"

subsection \<open>TheoryMaster\<close>

record TheoryMaster =
  notes_in_octave :: int
  "notes" :: "string list"
  modes :: "string list"
  major_intervals :: "int list"
  minor_intervals :: "int list"
  dim_intervals :: "int list"

text \<open>\<open>TheoryMaster.__init__\<close>: the object as constructed.\<close>

definition TheoryMaster_init :: TheoryMaster where
  "TheoryMaster_init =
     \<lparr>notes_in_octave = 8,
      notes = [''C'', ''C#'', ''D'', ''Eb'', ''E'', ''F'', ''F#'', ''G'', ''G#'', ''A'',
               ''Bb'', ''B''],
      modes = [''ionian'', ''dorian'', ''phrygian'', ''lydian'', ''mixolydian'',
               ''aeolian'', ''locrian''],
      major_intervals = [2, 2, 1, 2, 2, 2, 1],
      minor_intervals = [2, 1, 2, 2, 1, 2, 2],
      dim_intervals = [2, 1, 2, 1, 2, 1, 2]\<rparr>"

text \<open>
  \<open>invert\<close> runs \<open>n\<close> times \<open>base = intervals.pop(0) + 12; intervals.append(base)\<close>
  on the list it is given and returns that same list object. \<open>invert_loop k xs\<close> is
  the content of the list after \<open>k\<close> more rounds; \<open>pop(0)\<close> on an empty list raises
  IndexError.
\<close>

fun invert_loop :: "nat \<Rightarrow> int list \<Rightarrow> error + int list" where
  "invert_loop 0 xs = Inr xs"
| "invert_loop (Suc k) [] = Inl IndexError"
| "invert_loop (Suc k) (x # xs) = invert_loop k (xs @ [x + 12])"

definition invert :: "int list \<Rightarrow> int \<Rightarrow> error + int list" where
  "invert intervals n = invert_loop (nat n) intervals"

text \<open>
  \<open>get_mode_intervals\<close> hands the stored list \<open>self.major_intervals\<close> itself to
  \<open>invert\<close>, which rotates it in place and returns it. The model returns the content
  of the returned list together with the object after the call.
\<close>

definition get_mode_intervals :: "TheoryMaster \<Rightarrow> string \<Rightarrow> error + (int list \<times> TheoryMaster)" where
  "get_mode_intervals self mode =
     (if mode \<notin> set (modes self) then Inl ValueError
      else bind (list_index (modes self) mode) (\<lambda>i.
           bind (invert (major_intervals self) (int i)) (\<lambda>xs.
           Inr (xs, self\<lparr>major_intervals := xs\<rparr>))))"


text \<open>
  \<open>get_pitch\<close>: \<open>((2 ** (1 / 12)) ** interval) * pitch\<close>. Python's power of a float
  raises OverflowError when the result leaves the range of doubles; with the base
  \<open>2 ** (1 / 12)\<close> this happens from the exponent 12288 on, where the power reaches
  \<open>2 ** 1024\<close>, and at no smaller exponent (a large negative exponent gives a result
  near zero and does not raise). Below 12288 the value is taken over the reals.
\<close>

definition get_pitch :: "real \<Rightarrow> int \<Rightarrow> error + real" where
  "get_pitch hz interval =
     (if 12288 \<le> interval then Inl OverflowError
      else Inr (((2 powr (1 / 12)) powi interval) * hz))"

definition get_triad_intervals :: "string \<Rightarrow> int \<Rightarrow> error + int list" where
  "get_triad_intervals interval inversion =
     (if interval = ''major'' then invert [0, 4, 7] inversion
      else if interval = ''major_7'' then invert [0, 4, 7, 11] inversion
      else if interval = ''minor'' then invert [0, 3, 7] inversion
      else if interval = ''minor_7'' then invert [0, 3, 7, 10] inversion
      else if interval = ''dom_7'' then invert [0, 4, 7, 10] inversion
      else if interval = ''dim'' then invert [0, 3, 6] inversion
      else Inl ValueError)"

subsection \<open>Scale\<close>

record Scale =
  name :: string
  base_note :: Note
  intervals :: "int list"
  "notes" :: "Note list"



section \<open>instruments.py\<close>

subsection \<open>Dictionaries keyed by notes\<close>

text \<open>
  A Python dict keyed by \<open>Note\<close> objects, as the list of its items in insertion order.
  A stored key answers a lookup when its hash equals the hash of the looked-up key and
  \<open>__eq__\<close> holds between the two. (Object identity, which Python tries first, adds
  nothing here: \<open>__eq__\<close> is reflexive on real pitches.)
\<close>

definition key_match :: "(string \<times> int \<Rightarrow> 'h) \<Rightarrow> Note \<Rightarrow> Note \<Rightarrow> bool" where
  "key_match H stored k = (Note_hash H stored = Note_hash H k \<and> Note_eq stored k)"

text \<open>\<open>d.get(k)\<close>.\<close>

fun dict_get :: "(string \<times> int \<Rightarrow> 'h) \<Rightarrow> (Note \<times> 'v) list \<Rightarrow> Note \<Rightarrow> 'v option" where
  "dict_get H [] k = None"
| "dict_get H ((k', v) # d) k = (if key_match H k' k then Some v else dict_get H d k)"

text \<open>\<open>k in d\<close>.\<close>

definition dict_contains :: "(string \<times> int \<Rightarrow> 'h) \<Rightarrow> (Note \<times> 'v) list \<Rightarrow> Note \<Rightarrow> bool" where
  "dict_contains H d k = (dict_get H d k \<noteq> None)"

text \<open>\<open>d[k]\<close>, KeyError when no stored key answers.\<close>

definition dict_getitem :: "(string \<times> int \<Rightarrow> 'h) \<Rightarrow> (Note \<times> 'v) list \<Rightarrow> Note \<Rightarrow> error + 'v" where
  "dict_getitem H d k = (case dict_get H d k of None \<Rightarrow> Inl KeyError | Some v \<Rightarrow> Inr v)"

text \<open>
  \<open>d[k] = v\<close>: the value of the answering stored key is replaced (the stored key object
  stays); without one, the item is added at the end.
\<close>

fun dict_setitem :: "(string \<times> int \<Rightarrow> 'h) \<Rightarrow> (Note \<times> 'v) list \<Rightarrow> Note \<Rightarrow> 'v \<Rightarrow> (Note \<times> 'v) list" where
  "dict_setitem H [] k v = [(k, v)]"
| "dict_setitem H ((k', v') # d) k v =
     (if key_match H k' k then (k', v) # d else (k', v') # dict_setitem H d k v)"

subsection \<open>Piano\<close>

record Piano =
  name :: string
  low_note :: Note
  num_keys :: int
  keys :: "int \<rightharpoonup> Note"
  "notes" :: "(Note \<times> int) list"



text \<open>\<open>Piano.play\<close>: \<open>[self.notes.get(note) for note in notes]\<close>.\<close>

definition Piano_play :: "(string \<times> int \<Rightarrow> 'h) \<Rightarrow> Piano \<Rightarrow> Note list \<Rightarrow> int option list" where
  "Piano_play H self ns = map (\<lambda>note. dict_get H (Piano.notes self) note) ns"

subsection \<open>Guitar\<close>

record Guitar =
  name :: string
  nstrings :: int
  frets :: int
  tuning :: "Note list"
  strings :: "int \<rightharpoonup> Note"
  "notes" :: "(Note \<times> int list) list"

text \<open>
  The body of the inner loop of \<open>Guitar._initiate\<close>, for one string and one fret. The
  name is computed before the pitch, so an unknown open-string name raises ValueError
  before \<open>get_pitch\<close> can raise OverflowError.
\<close>

definition Guitar_place :: "(string \<times> int \<Rightarrow> 'h) \<Rightarrow> int \<Rightarrow> Note \<Rightarrow> int \<Rightarrow> Guitar \<Rightarrow> error + Guitar" where
  "Guitar_place H string open_string_note fret self =
     (let position = (string * frets self) + fret
      in bind (list_index (TheoryMaster.notes TheoryMaster_init) (Note.name open_string_note)) (\<lambda>index.
         bind (getitem (TheoryMaster.notes TheoryMaster_init) ((int index + fret) mod 12)) (\<lambda>nm.
         bind (get_pitch (pitch open_string_note) fret) (\<lambda>hz.
         let note = \<lparr>Note.name = nm, pitch = hz\<rparr>;
             self' = self\<lparr>strings := (strings self)(position \<mapsto> note)\<rparr>
         in if \<not> dict_contains H (Guitar.notes self') note
            then Inr (self'\<lparr>Guitar.notes := dict_setitem H (Guitar.notes self') note [position]\<rparr>)
            else bind (dict_getitem H (Guitar.notes self') note) (\<lambda>ps.
                 Inr (self'\<lparr>Guitar.notes := dict_setitem H (Guitar.notes self') note (ps @ [position])\<rparr>))))))"

text \<open>\<open>Guitar._initiate\<close>: every string of the tuning, every fret below \<open>frets\<close>.\<close>

definition Guitar_initiate :: "(string \<times> int \<Rightarrow> 'h) \<Rightarrow> Guitar \<Rightarrow> error + Guitar" where
  "Guitar_initiate H self =
     fold_err
       (\<lambda>(string, open_string_note).
          fold_err (Guitar_place H string open_string_note) (py_range (frets self)))
       (enumerate_from 0 (tuning self))
       self"

definition Guitar_init :: "(string \<times> int \<Rightarrow> 'h) \<Rightarrow> int \<Rightarrow> int \<Rightarrow> Note list \<Rightarrow> error + Guitar" where
  "Guitar_init H n f t =
     Guitar_initiate H \<lparr>Guitar.name = ''guitar'', nstrings = n, frets = f, tuning = t,
                        strings = Map.empty, notes = []\<rparr>"

text \<open>The default tuning of \<open>Guitar.__init__\<close>.\<close>

definition standard_tuning :: "Note list" where
  "standard_tuning =
     [\<lparr>Note.name = ''E'', pitch = 82.41\<rparr>, \<lparr>Note.name = ''A'', pitch = 110.00\<rparr>,
      \<lparr>Note.name = ''D'', pitch = 146.83\<rparr>, \<lparr>Note.name = ''G'', pitch = 196.00\<rparr>,
      \<lparr>Note.name = ''B'', pitch = 246.94\<rparr>, \<lparr>Note.name = ''E'', pitch = 329.63\<rparr>]"

text \<open>\<open>Guitar.play\<close>: \<open>[self.notes.get(note) for note in notes]\<close>.\<close>

definition Guitar_play :: "(string \<times> int \<Rightarrow> 'h) \<Rightarrow> Guitar \<Rightarrow> Note list \<Rightarrow> int list option list" where
  "Guitar_play H self ns = map (\<lambda>note. dict_get H (Guitar.notes self) note) ns"

section \<open>analysis.py\<close>

text \<open>
  \<open>GuitarAnalyzer\<close> is a \<open>Guitar\<close> with one more attribute (a style for drawing) that
  no modelled method reads; its methods are functions of the \<open>Guitar\<close> state.
  Python's \<open>//\<close> and \<open>%\<close> on integers are \<open>div\<close> and \<open>mod\<close> on \<open>int\<close> (both round
  towards minus infinity), and raise ZeroDivisionError for a zero divisor.
\<close>

definition get_coordinates :: "Guitar \<Rightarrow> int \<Rightarrow> error + (int \<times> int)" where
  "get_coordinates self position =
     (if frets self = 0 then Inl ZeroDivisionError
      else Inr (position div frets self, position mod frets self))"

text \<open>
  The distances are Python floats. The floating-point operations of the interpreter
  and its library that the optimizer uses are parameters of the model, over a type
  \<open>'f\<close> of the values they compute (the doubles, and the integer \<open>0\<close> that \<open>sum\<close>
  returns for an empty list): \<open>math.sqrt\<close> applied to an integer, which rounds and
  which raises OverflowError for an integer too large to convert (ValueError for a
  negative one); the built-in \<open>sum\<close> of a list of floats; the comparison \<open><\<close>; and
  \<open>float("inf")\<close>.
\<close>

record 'f float_ops =
  math_sqrt :: "int \<Rightarrow> error + 'f"
  py_sum :: "'f list \<Rightarrow> 'f"
  float_lt :: "'f \<Rightarrow> 'f \<Rightarrow> bool"
  float_inf :: 'f

definition euclidean_distance :: "'f float_ops \<Rightarrow> int \<times> int \<Rightarrow> int \<times> int \<Rightarrow> error + 'f" where
  "euclidean_distance ops point1 point2 =
     (case point1 of (x1, y1) \<Rightarrow> case point2 of (x2, y2) \<Rightarrow>
        math_sqrt ops ((x2 - x1)\<^sup>2 + (y2 - y1)\<^sup>2))"

definition compute_distance :: "'f float_ops \<Rightarrow> Guitar \<Rightarrow> int \<Rightarrow> int \<Rightarrow> error + 'f" where
  "compute_distance ops self position_1 position_2 =
     (if frets self = 0 then Inl ZeroDivisionError
      else let position_1_coords = (position_1 div frets self + 1, position_1 mod frets self);
               position_2_coords = (position_2 div frets self + 1, position_2 mod frets self)
           in euclidean_distance ops position_1_coords position_2_coords)"

text \<open>\<open>itertools.product(*positions_list)\<close>: the leftmost list varies slowest.\<close>

fun itertools_product :: "'a list list \<Rightarrow> 'a list list" where
  "itertools_product [] = [[]]"
| "itertools_product (xs # xss) =
     concat (map (\<lambda>x. map (\<lambda>c. x # c) (itertools_product xss)) xs)"

text \<open>
  The sum in the loop body of \<open>compute_least_distance_combination\<close>:
  \<open>sum([compute_distance(c[i], c[i + 1]) for i in range(len(c) - 1)])\<close>. The list is
  built first (any exception ends the call), then summed.
\<close>

definition total_distance :: "'f float_ops \<Rightarrow> Guitar \<Rightarrow> int list \<Rightarrow> error + 'f" where
  "total_distance ops self combination =
     bind (map_err (\<lambda>i. compute_distance ops self (combination ! i) (combination ! (i + 1)))
             [0..<length combination - 1])
          (\<lambda>ds. Inr (py_sum ops ds))"

text \<open>
  The loop of \<open>compute_least_distance_combination\<close> over the remaining combinations,
  on the state \<open>(least_distance, least_distance_combination)\<close>.
\<close>

fun least_loop :: "'f float_ops \<Rightarrow> Guitar \<Rightarrow> int list list \<Rightarrow> 'f \<times> int list option \<Rightarrow> error + int list option" where
  "least_loop ops self [] (least_distance, least_distance_combination) =
     Inr least_distance_combination"
| "least_loop ops self (combination # rest) (least_distance, least_distance_combination) =
     (case total_distance ops self combination of
        Inl e \<Rightarrow> Inl e
      | Inr total_d \<Rightarrow>
          if float_lt ops total_d least_distance
          then least_loop ops self rest (total_d, Some combination)
          else least_loop ops self rest (least_distance, least_distance_combination))"

definition compute_least_distance_combination :: "'f float_ops \<Rightarrow> Guitar \<Rightarrow> int list list \<Rightarrow> error + int list option" where
  "compute_least_distance_combination ops self positions_list =
     least_loop ops self (itertools_product positions_list) (float_inf ops, None)"

text \<open>
  \<open>get_finger_combination\<close> is a generator; the model is the list it yields when it is
  consumed, or the exception raised on the way. Iterating over \<open>None\<close> raises
  TypeError.
\<close>

definition get_finger_combination :: "'f float_ops \<Rightarrow> Guitar \<Rightarrow> int list list \<Rightarrow> error + (int \<times> int) list" where
  "get_finger_combination ops self positions =
     bind (compute_least_distance_combination ops self positions) (\<lambda>least_distance_combination.
       case least_distance_combination of
         None \<Rightarrow> Inl TypeError
       | Some combination \<Rightarrow> map_err (get_coordinates self) combination)"

text \<open>
  \<open>get_equivalence_classes\<close>, consumed: the lists \<open>self.notes[_note]\<close> of every stored
  key whose name is the name of a target note are collected, target by target, and
  then \<open>self.strings[position]\<close> is yielded for each position of each collected list.
\<close>

definition get_equivalence_classes :: "(string \<times> int \<Rightarrow> 'h) \<Rightarrow> Guitar \<Rightarrow> Note list \<Rightarrow> error + Note list" where
  "get_equivalence_classes H self ns =
     bind (map_err
             (\<lambda>note. map_err (\<lambda>stored. dict_getitem H (Guitar.notes self) stored)
                        (filter (\<lambda>stored. Note.name stored = Note.name note)
                           (map fst (Guitar.notes self))))
             ns)
          (\<lambda>collected.
             map_err (\<lambda>position. case strings self position of
                                   None \<Rightarrow> Inl KeyError
                                 | Some note \<Rightarrow> Inr note)
               (concat (concat collected)))"

subsection \<open>The distance of the specification\<close>




subsection \<open>Arithmetic without rounding\<close>





subsection \<open>Instrument states for concrete runs\<close>

text \<open>A guitar object with 24 frets per string, before any position is placed.\<close>

definition demo_guitar :: Guitar where
  "demo_guitar = \<lparr>Guitar.name = ''guitar'', nstrings = 6, frets = 24, tuning = standard_tuning,
      strings = Map.empty, notes = []\<rparr>"


text \<open>
  The state that \<open>Guitar(nstrings=2, frets=1, tuning=[Note("E", 82.41), Note("A", 110.00)])\<close>
  constructs (lemma \<open>two_string_guitar_constructed\<close> below).
\<close>

definition two_string_guitar :: Guitar where
  "two_string_guitar =
     \<lparr>Guitar.name = ''guitar'', nstrings = 2, frets = 1,
      tuning = [\<lparr>Note.name = ''E'', pitch = 82.41\<rparr>, \<lparr>Note.name = ''A'', pitch = 110.00\<rparr>],
      strings = [0 \<mapsto> \<lparr>Note.name = ''E'', pitch = 82.41\<rparr>,
                 1 \<mapsto> \<lparr>Note.name = ''A'', pitch = 110.00\<rparr>],
      notes = [(\<lparr>Note.name = ''E'', pitch = 82.41\<rparr>, [0]),
               (\<lparr>Note.name = ''A'', pitch = 110.00\<rparr>, [1])]\<rparr>"

subsection \<open>Auxiliary functions for the proofs about construction\<close>

text \<open>
  These are not functions of the source. \<open>placed_note\<close> is the note that
  \<open>Guitar._initiate\<close> builds for an open string and a fret when the name of the open
  string is in the chromatic table and the fret is below 12288; \<open>store_note\<close> is
  what the loop body then does with a position and its note; \<open>placements\<close> lists the
  positions and notes in the order of the two loops. The lemmas \<open>Guitar_place_known_name\<close> and \<open>tuning_loop_known_names\<close>
  relate them to the model of the source.
\<close>

definition placed_note :: "Note \<Rightarrow> int \<Rightarrow> Note" where
  "placed_note open_string_note fret =
     \<lparr>Note.name =
        (case bind (list_index (TheoryMaster.notes TheoryMaster_init) (Note.name open_string_note))
                (\<lambda>index. getitem (TheoryMaster.notes TheoryMaster_init) ((int index + fret) mod 12)) of
           Inl e \<Rightarrow> []
         | Inr nm \<Rightarrow> nm),
      pitch = ((2 powr (1 / 12)) powi fret) * pitch open_string_note\<rparr>"

definition store_note :: "(string \<times> int \<Rightarrow> 'h) \<Rightarrow> int \<times> Note \<Rightarrow> Guitar \<Rightarrow> Guitar" where
  "store_note H pn self =
     (case pn of (position, note) \<Rightarrow>
        self\<lparr>strings := (strings self)(position \<mapsto> note),
             Guitar.notes :=
               (case dict_get H (Guitar.notes self) note of
                  None \<Rightarrow> dict_setitem H (Guitar.notes self) note [position]
                | Some ps \<Rightarrow> dict_setitem H (Guitar.notes self) note (ps @ [position]))\<rparr>)"

definition placements :: "int \<Rightarrow> (int \<times> Note) list \<Rightarrow> (int \<times> Note) list" where
  "placements f es =
     concat (map (\<lambda>(s, open_string_note).
                    map (\<lambda>fret. (s * f + fret, placed_note open_string_note fret)) (py_range f))
               es)"


section \<open>Inversion of interval lists\<close>

lemma invert_loop_rotate:
  "k \<le> length xs \<Longrightarrow> invert_loop k xs = Inr (drop k xs @ map (\<lambda>x. x + 12) (take k xs))"
proof (induction k xs rule: invert_loop.induct)
  case (1 xs)
  show ?case by simp
next
  case (2 k)
  then show ?case by simp
next
  case (3 k x xs)
  then have "k \<le> length xs" by simp
  with 3 show ?case by simp
qed

text \<open>
  Claim C8. For every interval list and every \<open>n\<close> not exceeding its length,
  \<open>invert(intervals, n)\<close> returns the list with its first \<open>n\<close> elements rotated to the
  end, each rotated element increased by 12 (no element is rotated when \<open>n\<close> is
  negative); and \<open>invert([0, 4, 7], 1)\<close> returns \<open>[4, 7, 12]\<close>.
\<close>

theorem invert_rotates_first_n:
  "(n \<le> int (length xs) \<longrightarrow>
      invert xs n =
        Inr (drop (nat n) xs @ map (\<lambda>x. x + 12) (take (nat n) xs)))
   \<and> invert [0, 4, 7] 1 = Inr [4, 7, 12]"
proof -
  have "invert [0, 4, 7] 1 = invert_loop (Suc 0) [0, 4, 7]"
    by (simp add: invert_def)
  then have "invert [0, 4, 7] 1 = Inr [4, 7, 12]"
    by simp
  moreover have "n \<le> int (length xs) \<longrightarrow>
      invert xs n =
        Inr (drop (nat n) xs @ map (\<lambda>x. x + 12) (take (nat n) xs))"
    unfolding invert_def by (intro impI invert_loop_rotate) linarith
  ultimately show ?thesis by blast
qed

theorem invert_rotates_first_n_witness:
  "(2::int) \<le> int (length [0, 3, 7, 10 :: int])
   \<and> invert [0, 3, 7, 10] 2 = Inr [7, 10, 12, 15]"
proof -
  have h: "(2::int) \<le> int (length [0, 3, 7, 10 :: int])" by simp
  have "nat 2 = Suc (Suc 0)" by simp
  with h invert_rotates_first_n [of 2 "[0, 3, 7, 10]"] show ?thesis
    by simp
qed

section \<open>The fingering optimizer\<close>

















lemma itertools_product_empty: "[] \<in> set xss \<Longrightarrow> itertools_product xss = []"
  by (induction xss) auto

lemma empty_candidates_absent:
  "[] \<in> set positions_list \<Longrightarrow>
     compute_least_distance_combination ops self positions_list = Inr None"
  by (simp add: compute_least_distance_combination_def itertools_product_empty)

lemma empty_candidates_finger_raises:
  "[] \<in> set positions_list \<Longrightarrow> get_finger_combination ops self positions_list = Inl TypeError"
  by (simp add: get_finger_combination_def empty_candidates_absent bind_def)

text \<open>
  Claim C2 asks that the optimizer, given a note without candidate positions, returns
  an empty or absent result and does not crash. On the input \<open>[[0], []]\<close>,
  \<open>compute_least_distance_combination\<close> returns \<open>None\<close>, and
  \<open>get_finger_combination\<close>, which iterates over that result, raises TypeError when
  it is consumed.
\<close>

theorem get_finger_combination_empty_candidates:
  "compute_least_distance_combination ops demo_guitar [[0], []] = Inr None
   \<and> get_finger_combination ops demo_guitar [[0], []] = Inl TypeError"
  by (simp add: empty_candidates_absent empty_candidates_finger_raises)

section \<open>Instruments built on small tunings\<close>

lemma py_round_8241: "py_round (8241 / 100) = 82"
  by (simp add: py_round_def Let_def)

lemma py_round_110: "py_round 110 = 110"
  by (simp add: py_round_def Let_def)

lemma chromatic_table:
  "TheoryMaster.notes TheoryMaster_init =
     [''C'', ''C#'', ''D'', ''Eb'', ''E'', ''F'', ''F#'', ''G'', ''G#'', ''A'', ''Bb'', ''B'']"
  by (simp add: TheoryMaster_init_def)

lemma chromatic_index_E: "list_index (TheoryMaster.notes TheoryMaster_init) ''E'' = Inr 4"
  by (simp add: TheoryMaster_init_def)

lemma chromatic_index_A: "list_index (TheoryMaster.notes TheoryMaster_init) ''A'' = Inr 9"
  by (simp add: TheoryMaster_init_def)

lemma two_string_guitar_constructed:
  "Guitar_init H 2 1 [\<lparr>Note.name = ''E'', pitch = 82.41\<rparr>, \<lparr>Note.name = ''A'', pitch = 110.00\<rparr>]
     = Inr two_string_guitar"
  by (simp add: Guitar_init_def Guitar_initiate_def py_range_def Guitar_place_def
      chromatic_index_E chromatic_index_A bind_def getitem_def Let_def dict_contains_def
      dict_getitem_def key_match_def Note_eq_def get_pitch_def py_round_8241 py_round_110
      two_string_guitar_def chromatic_table)

text \<open>
  Claim C3 says that \<open>get_equivalence_classes\<close> yields candidate positions (integer
  position indices) per target note. On the guitar with two strings and one fret, asked
  for the note A, it yields the \<open>Note\<close> object stored at position 1, in one flat
  stream, where the claim (and the method's docstring) has the position 1.
\<close>

theorem get_equivalence_classes_yields_notes:
  "Guitar_init H 2 1 [\<lparr>Note.name = ''E'', pitch = 82.41\<rparr>, \<lparr>Note.name = ''A'', pitch = 110.00\<rparr>]
     = Inr two_string_guitar
   \<and> get_equivalence_classes H two_string_guitar [\<lparr>Note.name = ''A'', pitch = 110.00\<rparr>]
     = Inr [\<lparr>Note.name = ''A'', pitch = 110.00\<rparr>]"
proof (rule conjI)
  show "Guitar_init H 2 1 [\<lparr>Note.name = ''E'', pitch = 82.41\<rparr>, \<lparr>Note.name = ''A'', pitch = 110.00\<rparr>]
     = Inr two_string_guitar"
    by (rule two_string_guitar_constructed)
  show "get_equivalence_classes H two_string_guitar [\<lparr>Note.name = ''A'', pitch = 110.00\<rparr>]
     = Inr [\<lparr>Note.name = ''A'', pitch = 110.00\<rparr>]"
    by (simp add: get_equivalence_classes_def two_string_guitar_def bind_def dict_getitem_def
      key_match_def Note_eq_def py_round_8241 py_round_110)
qed

section \<open>Mode intervals\<close>

text \<open>
  Claim C4 says that \<open>get_mode_intervals\<close> leaves the stored interval tables
  unchanged and that two successive calls with the same mode return the same list. On
  a fresh \<open>TheoryMaster()\<close> and the mode dorian, the first call rotates
  \<open>major_intervals\<close> in place to \<open>[2, 1, 2, 2, 2, 1, 14]\<close>, and the second call, on
  the object the first one left, returns \<open>[1, 2, 2, 2, 1, 14, 14]\<close>.
\<close>

theorem get_mode_intervals_rotates_stored_table:
  "get_mode_intervals TheoryMaster_init ''dorian''
     = Inr ([2, 1, 2, 2, 2, 1, 14], TheoryMaster_init\<lparr>major_intervals := [2, 1, 2, 2, 2, 1, 14]\<rparr>)
   \<and> get_mode_intervals (TheoryMaster_init\<lparr>major_intervals := [2, 1, 2, 2, 2, 1, 14]\<rparr>) ''dorian''
     = Inr ([1, 2, 2, 2, 1, 14, 14],
            TheoryMaster_init\<lparr>major_intervals := [1, 2, 2, 2, 1, 14, 14]\<rparr>)"
  by (simp add: get_mode_intervals_def TheoryMaster_init_def bind_def invert_def)

section \<open>Equality and hashing of notes\<close>

lemma py_round_above: "py_round (881 / 2) = 440"
  by (simp add: py_round_def Let_def)

lemma py_round_below: "py_round (1759 / 4) = 440"
  by (simp add: py_round_def Let_def)

text \<open>
  Claim C6, as the code has it. For all notes \<open>a\<close> and \<open>b\<close>, \<open>a == b\<close> holds if and
  only if the rounded pitches are equal, whatever the names are; and two equal notes
  that also have the same name have the same hash. (The hash is taken of the name and
  the rounded pitch, so equal notes with different names need not hash identically:
  see the counterexample below.)
\<close>

theorem Note_eq_rounded_pitch_hash_name:
  "(Note_eq a b \<longleftrightarrow> py_round (pitch a) = py_round (pitch b))
   \<and> Note_eq (a\<lparr>Note.name := n\<rparr>) (b\<lparr>Note.name := m\<rparr>) = Note_eq a b
   \<and> (Note_eq a b \<and> Note.name a = Note.name b \<longrightarrow> Note_hash H a = Note_hash H b)"
  by (simp add: Note_eq_def Note_hash_def)

theorem Note_eq_rounded_pitch_hash_name_witness:
  "Note_eq \<lparr>Note.name = ''A'', pitch = 881 / 2\<rparr> \<lparr>Note.name = ''A'', pitch = 1759 / 4\<rparr>
   \<and> Note.name \<lparr>Note.name = ''A'', pitch = 881 / 2\<rparr>
       = Note.name \<lparr>Note.name = ''A'', pitch = 1759 / 4\<rparr>
   \<and> Note_hash (\<lambda>k. k) \<lparr>Note.name = ''A'', pitch = 881 / 2\<rparr>
       = Note_hash (\<lambda>k. k) \<lparr>Note.name = ''A'', pitch = 1759 / 4\<rparr>"
proof -
  let ?a = "\<lparr>Note.name = ''A'', pitch = 881 / 2\<rparr>"
  let ?b = "\<lparr>Note.name = ''A'', pitch = 1759 / 4\<rparr>"
  have e: "Note_eq ?a ?b"
    by (simp add: Note_eq_def py_round_above py_round_below)
  have n: "Note.name ?a = Note.name ?b" by simp
  from Note_eq_rounded_pitch_hash_name [of ?a ?b "''A''" "''A''" "\<lambda>k. k"] e n
  have "Note_hash (\<lambda>k. k) ?a = Note_hash (\<lambda>k. k) ?b" by blast
  with e n show ?thesis by blast
qed

text \<open>
  The notes A and Bb at 440 Hz are equal, and the tuples their hashes are taken of
  differ: under a hash that separates the two tuples (the identity, or any injective
  one) their hashes differ.
\<close>

theorem equal_notes_different_hash_counterexample:
  "Note_eq \<lparr>Note.name = ''A'', pitch = 440\<rparr> \<lparr>Note.name = ''Bb'', pitch = 440\<rparr>
   \<and> Note_hash (\<lambda>k. k) \<lparr>Note.name = ''A'', pitch = 440\<rparr>
       \<noteq> Note_hash (\<lambda>k. k) \<lparr>Note.name = ''Bb'', pitch = 440\<rparr>
   \<and> \<not> (\<exists>H :: string \<times> int \<Rightarrow> nat. inj H
          \<and> Note_hash H \<lparr>Note.name = ''A'', pitch = 440\<rparr>
              = Note_hash H \<lparr>Note.name = ''Bb'', pitch = 440\<rparr>)"
  by (auto simp: Note_eq_def Note_hash_def inj_def)

section \<open>Looking notes up on an instrument\<close>

lemma key_match_inj:
  "inj H \<Longrightarrow> key_match H s k \<longleftrightarrow>
     Note.name s = Note.name k \<and> py_round (pitch s) = py_round (pitch k)"
  by (auto simp: key_match_def Note_hash_def Note_eq_def inj_def)

lemma dict_get_Some_iff:
  "(\<exists>v. dict_get H d k = Some v) \<longleftrightarrow> (\<exists>s\<in>fst ` set d. key_match H s k)"
  by (induction d) auto

lemma dict_get_Some_stored:
  "dict_get H d k = Some v \<Longrightarrow> \<exists>s. (s, v) \<in> set d \<and> key_match H s k"
  by (induction d) (auto split: if_splits)

text \<open>
  Claim C5, as the code has it. For every list of input notes and every instrument
  state, \<open>play\<close> returns one entry per input note, in order, and never raises. Under
  a hash without collisions, the entry is present exactly when some stored note has
  the same name and the same rounded pitch as the input note, and it is then the
  position list (guitar) or key (piano) stored with such a note; otherwise the entry
  is \<open>None\<close>.
\<close>

theorem play_finds_same_name_and_rounded_pitch:
  assumes "inj H"
  shows "length (Guitar_play H g ns) = length ns
    \<and> length (Piano_play H p ns) = length ns
    \<and> (\<forall>i<length ns.
          ((\<exists>ps. Guitar_play H g ns ! i = Some ps) \<longleftrightarrow>
             (\<exists>s\<in>fst ` set (Guitar.notes g).
                 Note.name s = Note.name (ns ! i) \<and> py_round (pitch s) = py_round (pitch (ns ! i))))
        \<and> (\<forall>ps. Guitar_play H g ns ! i = Some ps \<longrightarrow>
              (\<exists>s. (s, ps) \<in> set (Guitar.notes g) \<and> Note.name s = Note.name (ns ! i)
                    \<and> py_round (pitch s) = py_round (pitch (ns ! i))))
        \<and> ((\<exists>key. Piano_play H p ns ! i = Some key) \<longleftrightarrow>
             (\<exists>s\<in>fst ` set (Piano.notes p).
                 Note.name s = Note.name (ns ! i) \<and> py_round (pitch s) = py_round (pitch (ns ! i))))
        \<and> (\<forall>key. Piano_play H p ns ! i = Some key \<longrightarrow>
              (\<exists>s. (s, key) \<in> set (Piano.notes p) \<and> Note.name s = Note.name (ns ! i)
                    \<and> py_round (pitch s) = py_round (pitch (ns ! i)))))"
proof (intro conjI allI impI)
  show "length (Guitar_play H g ns) = length ns" by (simp add: Guitar_play_def)
  show "length (Piano_play H p ns) = length ns" by (simp add: Piano_play_def)
next
  fix i assume i: "i < length ns"
  then have gp: "Guitar_play H g ns ! i = dict_get H (Guitar.notes g) (ns ! i)"
    by (simp add: Guitar_play_def)
  show "(\<exists>ps. Guitar_play H g ns ! i = Some ps) \<longleftrightarrow>
     (\<exists>s\<in>fst ` set (Guitar.notes g).
         Note.name s = Note.name (ns ! i) \<and> py_round (pitch s) = py_round (pitch (ns ! i)))"
    unfolding gp dict_get_Some_iff by (simp add: key_match_inj [OF assms])
next
  fix i ps assume i: "i < length ns" and s: "Guitar_play H g ns ! i = Some ps"
  then have "dict_get H (Guitar.notes g) (ns ! i) = Some ps"
    by (simp add: Guitar_play_def)
  from dict_get_Some_stored [OF this]
  show "\<exists>s. (s, ps) \<in> set (Guitar.notes g) \<and> Note.name s = Note.name (ns ! i)
            \<and> py_round (pitch s) = py_round (pitch (ns ! i))"
    by (simp add: key_match_inj [OF assms])
next
  fix i assume i: "i < length ns"
  then have pp: "Piano_play H p ns ! i = dict_get H (Piano.notes p) (ns ! i)"
    by (simp add: Piano_play_def)
  show "(\<exists>key. Piano_play H p ns ! i = Some key) \<longleftrightarrow>
     (\<exists>s\<in>fst ` set (Piano.notes p).
         Note.name s = Note.name (ns ! i) \<and> py_round (pitch s) = py_round (pitch (ns ! i)))"
    unfolding pp dict_get_Some_iff by (simp add: key_match_inj [OF assms])
next
  fix i key assume i: "i < length ns" and s: "Piano_play H p ns ! i = Some key"
  then have "dict_get H (Piano.notes p) (ns ! i) = Some key"
    by (simp add: Piano_play_def)
  from dict_get_Some_stored [OF this]
  show "\<exists>s. (s, key) \<in> set (Piano.notes p) \<and> Note.name s = Note.name (ns ! i)
            \<and> py_round (pitch s) = py_round (pitch (ns ! i))"
    by (simp add: key_match_inj [OF assms])
qed


theorem play_finds_same_name_and_rounded_pitch_witness:
  "inj (\<lambda>k :: string \<times> int. k)
   \<and> length (Guitar_play (\<lambda>k. k) two_string_guitar
        [\<lparr>Note.name = ''A'', pitch = 110\<rparr>, \<lparr>Note.name = ''F'', pitch = 82.41\<rparr>]) = 2
   \<and> (\<exists>ps. Guitar_play (\<lambda>k. k) two_string_guitar
        [\<lparr>Note.name = ''A'', pitch = 110\<rparr>, \<lparr>Note.name = ''F'', pitch = 82.41\<rparr>] ! 0 = Some ps)
   \<and> Guitar_play (\<lambda>k. k) two_string_guitar
        [\<lparr>Note.name = ''A'', pitch = 110\<rparr>, \<lparr>Note.name = ''F'', pitch = 82.41\<rparr>] ! 1 = None"
proof -
  let ?H = "\<lambda>k :: string \<times> int. k"
  let ?ns = "[\<lparr>Note.name = ''A'', pitch = 110\<rparr>, \<lparr>Note.name = ''F'', pitch = 82.41\<rparr>]"
  have h: "inj ?H" by (simp add: inj_def)
  note t = play_finds_same_name_and_rounded_pitch [OF h, of two_string_guitar ?ns]
  have keys: "fst ` set (Guitar.notes two_string_guitar)
      = {\<lparr>Note.name = ''E'', pitch = 8241 / 100\<rparr>, \<lparr>Note.name = ''A'', pitch = 110\<rparr>}"
    by (simp add: two_string_guitar_def)
  from t have len: "length (Guitar_play ?H two_string_guitar ?ns) = 2" by simp
  from t have 0: "(\<exists>ps. Guitar_play ?H two_string_guitar ?ns ! 0 = Some ps) \<longleftrightarrow>
      (\<exists>s\<in>fst ` set (Guitar.notes two_string_guitar).
         Note.name s = Note.name (?ns ! 0) \<and> py_round (pitch s) = py_round (pitch (?ns ! 0)))"
    by simp
  from t have 1: "(\<exists>ps. Guitar_play ?H two_string_guitar ?ns ! 1 = Some ps) \<longleftrightarrow>
      (\<exists>s\<in>fst ` set (Guitar.notes two_string_guitar).
         Note.name s = Note.name (?ns ! 1) \<and> py_round (pitch s) = py_round (pitch (?ns ! 1)))"
    by simp
  have found: "\<exists>ps. Guitar_play ?H two_string_guitar ?ns ! 0 = Some ps"
    unfolding 0 keys by simp
  have "\<not> (\<exists>ps. Guitar_play ?H two_string_guitar ?ns ! 1 = Some ps)"
    unfolding 1 keys by simp
  then have absent: "Guitar_play ?H two_string_guitar ?ns ! 1 = None" by simp
  from h len found absent show ?thesis by blast
qed

text \<open>
  The constructed guitar with two strings and one fret stores the note E of 82.41 Hz
  at position 0. A note named F with the same pitch has the same rounded pitch, and
  \<open>play\<close> answers \<open>None\<close> for it.
\<close>

theorem play_same_rounded_pitch_not_found_counterexample:
  "Guitar_init (\<lambda>k. k) 2 1 [\<lparr>Note.name = ''E'', pitch = 82.41\<rparr>, \<lparr>Note.name = ''A'', pitch = 110.00\<rparr>]
     = Inr two_string_guitar
   \<and> (\<lparr>Note.name = ''E'', pitch = 82.41\<rparr>, [0]) \<in> set (Guitar.notes two_string_guitar)
   \<and> py_round (pitch \<lparr>Note.name = ''E'', pitch = 82.41\<rparr>)
       = py_round (pitch \<lparr>Note.name = ''F'', pitch = 82.41\<rparr>)
   \<and> Guitar_play (\<lambda>k. k) two_string_guitar [\<lparr>Note.name = ''F'', pitch = 82.41\<rparr>] = [None]"
proof (intro conjI)
  show "Guitar_init (\<lambda>k. k) 2 1 [\<lparr>Note.name = ''E'', pitch = 82.41\<rparr>, \<lparr>Note.name = ''A'', pitch = 110.00\<rparr>]
     = Inr two_string_guitar"
    by (rule two_string_guitar_constructed)
  show "(\<lparr>Note.name = ''E'', pitch = 82.41\<rparr>, [0]) \<in> set (Guitar.notes two_string_guitar)"
    by (simp add: two_string_guitar_def)
  show "py_round (pitch \<lparr>Note.name = ''E'', pitch = 82.41\<rparr>)
       = py_round (pitch \<lparr>Note.name = ''F'', pitch = 82.41\<rparr>)"
    by simp
  show "Guitar_play (\<lambda>k. k) two_string_guitar [\<lparr>Note.name = ''F'', pitch = 82.41\<rparr>] = [None]"
    by (simp add: Guitar_play_def two_string_guitar_def key_match_def Note_hash_def Note_eq_def
        py_round_8241 py_round_110)
qed

section \<open>Construction of instruments and scales\<close>


lemma list_index_present:
  "x \<in> set xs \<Longrightarrow> \<exists>i<length xs. list_index xs x = Inr i \<and> xs ! i = x"
  by (induction xs) auto


lemma chromatic_length: "length (TheoryMaster.notes TheoryMaster_init) = 12"
  by (simp add: TheoryMaster_init_def)

lemma getitem_mod12:
  "\<exists>nm. getitem (TheoryMaster.notes TheoryMaster_init) (k mod 12) = Inr nm"
proof -
  have "0 \<le> k mod 12" "k mod 12 < 12" by simp_all
  then show ?thesis by (simp add: getitem_def chromatic_length)
qed

lemma py_range_below: "fret \<in> set (py_range f) \<Longrightarrow> 0 \<le> fret \<and> fret < f"
  by (auto simp: py_range_def)


lemma Guitar_place_known_name:
  assumes "Note.name open_note \<in> set (TheoryMaster.notes TheoryMaster_init)"
    and "fret < 12288"
  shows "Guitar_place H s open_note fret g
     = Inr (store_note H (s * frets g + fret, placed_note open_note fret) g)"
proof -
  from list_index_present [OF assms(1)] obtain i where
    i: "list_index (TheoryMaster.notes TheoryMaster_init) (Note.name open_note) = Inr i"
    by blast
  from getitem_mod12 [of "int i + fret"] obtain nm where
    nm: "getitem (TheoryMaster.notes TheoryMaster_init) ((int i + fret) mod 12) = Inr nm"
    by blast
  let ?hz = "((2 powr (1 / 12)) powi fret) * pitch open_note"
  have hz: "get_pitch (pitch open_note) fret = Inr ?hz"
    using assms(2) by (simp add: get_pitch_def)
  have pn: "placed_note open_note fret = \<lparr>Note.name = nm, pitch = ?hz\<rparr>"
    by (simp add: placed_note_def i nm bind_def)
  show ?thesis
    by (cases "dict_get H (Guitar.notes g) \<lparr>Note.name = nm, pitch = ?hz\<rparr>")
      (simp_all add: Guitar_place_def i nm hz bind_def Let_def pn store_note_def
        dict_contains_def dict_getitem_def)
qed

lemma frets_store_note: "frets (store_note H pn g) = frets g"
  by (cases pn) (simp add: store_note_def)

lemma frets_fold_store_note: "frets (fold (store_note H) pns g) = frets g"
  by (induction pns arbitrary: g) (simp_all add: frets_store_note)


lemma string_loop_known_name:
  assumes "Note.name open_note \<in> set (TheoryMaster.notes TheoryMaster_init)"
    and "\<forall>fret\<in>set fs. fret < 12288"
  shows "fold_err (Guitar_place H s open_note) fs g
     = Inr (fold (store_note H) (map (\<lambda>fret. (s * frets g + fret, placed_note open_note fret)) fs) g)"
  using assms(2)
proof (induction fs arbitrary: g)
  case Nil
  show ?case by simp
next
  case (Cons fret fs)
  from Cons.prems have small: "fret < 12288" and rest: "\<forall>fret\<in>set fs. fret < 12288"
    by simp_all
  let ?g1 = "store_note H (s * frets g + fret, placed_note open_note fret) g"
  have step: "Guitar_place H s open_note fret g = Inr ?g1"
    by (rule Guitar_place_known_name [OF assms(1) small])
  have "fold_err (Guitar_place H s open_note) (fret # fs) g
      = fold_err (Guitar_place H s open_note) fs ?g1"
    by (simp only: fold_err.simps step sum.case)
  also have "\<dots> = Inr (fold (store_note H)
      (map (\<lambda>fret. (s * frets ?g1 + fret, placed_note open_note fret)) fs) ?g1)"
    by (rule Cons.IH [OF rest])
  also have "\<dots> = Inr (fold (store_note H)
      (map (\<lambda>fret. (s * frets g + fret, placed_note open_note fret)) (fret # fs)) g)"
    by (simp add: frets_store_note)
  finally show ?case .
qed

lemma py_range_no_overflow: "f \<le> 12288 \<Longrightarrow> \<forall>fret\<in>set (py_range f). fret < 12288"
  using py_range_below by fastforce

lemma tuning_loop_known_names:
  assumes "\<forall>e\<in>set es. Note.name (snd e) \<in> set (TheoryMaster.notes TheoryMaster_init)"
    and "frets g = f" and "f \<le> 12288"
  shows "fold_err (\<lambda>(s, open_note). fold_err (Guitar_place H s open_note) (py_range f)) es g
     = Inr (fold (store_note H) (placements f es) g)"
  using assms(1,2)
proof (induction es arbitrary: g)
  case Nil
  show ?case by (simp add: placements_def)
next
  case (Cons e es)
  obtain s opn where e: "e = (s, opn)" by (cases e)
  from Cons.prems e have ok: "Note.name opn \<in> set (TheoryMaster.notes TheoryMaster_init)"
    by simp
  let ?g' = "fold (store_note H) (map (\<lambda>fret. (s * f + fret, placed_note opn fret)) (py_range f)) g"
  have head: "fold_err (Guitar_place H s opn) (py_range f) g = Inr ?g'"
    using string_loop_known_name [OF ok py_range_no_overflow [OF assms(3)], of H s g]
      Cons.prems(2) by simp
  have "frets ?g' = f" using Cons.prems(2) by (simp add: frets_fold_store_note)
  with Cons.IH [of ?g'] Cons.prems(1)
  have tail: "fold_err (\<lambda>(s, open_note). fold_err (Guitar_place H s open_note) (py_range f)) es ?g'
      = Inr (fold (store_note H) (placements f es) ?g')"
    by simp
  show ?case
    by (simp add: e head tail placements_def)
qed







section \<open>The standard guitar\<close>

lemma dict_setitem_new:
  "dict_get H d k = None \<Longrightarrow> dict_setitem H d k v = d @ [(k, v)]"
  by (induction d) (auto split: if_splits)

lemma dict_setitem_extend:
  "dict_get H d k = Some ps \<Longrightarrow>
     mset (concat (map snd (dict_setitem H d k (ps @ [p]))))
       = mset (concat (map snd d)) + {#p#}"
  by (induction d) (auto split: if_splits)

lemma strings_store_note:
  "strings (store_note H (p, n) g) = (strings g)(p \<mapsto> n)"
  by (simp add: store_note_def)

lemma positions_store_note:
  "mset (concat (map snd (Guitar.notes (store_note H (p, n) g))))
     = mset (concat (map snd (Guitar.notes g))) + {#p#}"
  by (cases "dict_get H (Guitar.notes g) n")
    (simp_all add: store_note_def dict_setitem_new dict_setitem_extend)

lemma dom_fold_store_note:
  "dom (strings (fold (store_note H) pns g)) = dom (strings g) \<union> fst ` set pns"
proof (induction pns arbitrary: g)
  case Nil
  show ?case by simp
next
  case (Cons pn pns)
  obtain p n where pn: "pn = (p, n)" by (cases pn)
  have "dom (strings (fold (store_note H) (pn # pns) g))
      = dom (strings (store_note H (p, n) g)) \<union> fst ` set pns"
    by (simp only: pn fold_simps Cons.IH)
  also have "dom (strings (store_note H (p, n) g)) = insert p (dom (strings g))"
    by (simp only: strings_store_note dom_fun_upd option.simps if_False)
  finally show ?case by (simp add: pn)
qed

lemma positions_fold_store_note:
  "mset (concat (map snd (Guitar.notes (fold (store_note H) pns g))))
     = mset (concat (map snd (Guitar.notes g))) + mset (map fst pns)"
proof (induction pns arbitrary: g)
  case Nil
  show ?case by simp
next
  case (Cons pn pns)
  obtain p n where pn: "pn = (p, n)" by (cases pn)
  show ?case by (simp add: pn Cons.IH positions_store_note)
qed

lemma strings_fold_store_note_other:
  "p \<notin> fst ` set pns \<Longrightarrow> strings (fold (store_note H) pns g) p = strings g p"
proof (induction pns arbitrary: g)
  case Nil
  show ?case by simp
next
  case (Cons pn pns)
  obtain q n where pn: "pn = (q, n)" by (cases pn)
  with Cons.prems have "p \<noteq> q" "p \<notin> fst ` set pns" by auto
  with Cons.IH [of "store_note H (q, n) g"] show ?case
    by (simp add: pn strings_store_note)
qed

lemma strings_fold_store_note_placed:
  "distinct (map fst pns) \<Longrightarrow> (p, n) \<in> set pns \<Longrightarrow>
     strings (fold (store_note H) pns g) p = Some n"
proof (induction pns arbitrary: g)
  case Nil
  then show ?case by simp
next
  case (Cons pn pns)
  obtain q m where pn: "pn = (q, m)" by (cases pn)
  show ?case
  proof (cases "(p, n) = (q, m)")
    case True
    with Cons.prems(1) pn have "p \<notin> fst ` set pns" by auto
    from strings_fold_store_note_other [OF this, of H "store_note H (q, m) g"] True
    show ?thesis by (simp add: pn strings_store_note)
  next
    case False
    with Cons.prems pn have "(p, n) \<in> set pns" "distinct (map fst pns)" by auto
    from Cons.IH [OF this(2,1)] show ?thesis by (simp add: pn)
  qed
qed

lemma fret_positions:
  assumes "0 \<le> c"
  shows "map (\<lambda>fret. c + fret) (py_range f) = map int [nat c..<nat c + nat f]"
proof -
  have "map int [nat c..<nat c + nat f] = map int (map (\<lambda>i. i + nat c) [0..<nat f])"
    by (simp only: map_add_upt add.commute)
  also have "\<dots> = map (\<lambda>fret. c + fret) (py_range f)"
    using assms by (simp add: py_range_def)
  finally show ?thesis by simp
qed

lemma placements_positions:
  assumes "0 \<le> f" and "0 \<le> k"
  shows "map fst (placements f (enumerate_from k t))
     = map int [nat k * nat f..<(nat k + length t) * nat f]"
  using assms(2)
proof (induction t arbitrary: k)
  case Nil
  show ?case by (simp add: placements_def)
next
  case (Cons x t)
  have c: "0 \<le> k * f" using assms(1) Cons.prems by simp
  have nc: "nat (k * f) = nat k * nat f"
    using assms(1) Cons.prems by (simp add: nat_mult_distrib)
  have head: "map (\<lambda>fret. k * f + fret) (py_range f)
      = map int [nat k * nat f..<nat k * nat f + nat f]"
    using fret_positions [OF c, of f] by (simp add: nc)
  have "0 \<le> k + 1" using Cons.prems by simp
  from Cons.IH [OF this]
  have tail: "map fst (placements f (enumerate_from (k + 1) t))
      = map int [nat k * nat f + nat f..<(nat k + length (x # t)) * nat f]"
    using Cons.prems by (simp add: nat_add_distrib algebra_simps)
  have split: "[nat k * nat f..<(nat k + length (x # t)) * nat f]
      = [nat k * nat f..<nat k * nat f + nat f]
        @ [nat k * nat f + nat f..<(nat k + length (x # t)) * nat f]"
  proof -
    have "(nat k + length (x # t)) * nat f = (nat k * nat f + nat f) + length t * nat f"
      by (simp add: algebra_simps)
    then show ?thesis
      by (metis le_add1 upt_add_eq_append)
  qed
  have "map fst (placements f (enumerate_from k (x # t)))
      = map (\<lambda>fret. k * f + fret) (py_range f)
        @ map fst (placements f (enumerate_from (k + 1) t))"
    by (simp add: placements_def comp_def)
  then show ?case
    by (simp only: head tail split map_append)
qed


lemma distinct_concat_unique_index:
  "distinct (concat xss) \<Longrightarrow> x \<in> set (concat xss) \<Longrightarrow>
     \<exists>!i. i < length xss \<and> x \<in> set (xss ! i)"
proof (induction xss)
  case Nil
  then show ?case by simp
next
  case (Cons xs xss)
  from Cons.prems(1) have d: "distinct (concat xss)" and
    disj: "set xs \<inter> set (concat xss) = {}"
    by auto
  have later: "\<And>j. j < length xss \<Longrightarrow> x \<in> set (xss ! j) \<Longrightarrow> x \<in> set (concat xss)"
    by (metis nth_mem set_concat UN_I)
  show ?case
  proof (cases "x \<in> set xs")
    case True
    with disj have no: "x \<notin> set (concat xss)" by auto
    show ?thesis
    proof (rule ex1I [of _ 0])
      show "0 < length (xs # xss) \<and> x \<in> set ((xs # xss) ! 0)" using True by simp
    next
      fix j assume j: "j < length (xs # xss) \<and> x \<in> set ((xs # xss) ! j)"
      show "j = 0"
      proof (cases j)
        case 0
        then show ?thesis .
      next
        case (Suc j')
        with j have "j' < length xss" "x \<in> set (xss ! j')" by auto
        from later [OF this] no show ?thesis by simp
      qed
    qed
  next
    case False
    with Cons.prems(2) have "x \<in> set (concat xss)" by auto
    from Cons.IH [OF d this] obtain i where
      i: "i < length xss" "x \<in> set (xss ! i)" and
      u: "\<And>j. j < length xss \<and> x \<in> set (xss ! j) \<Longrightarrow> j = i"
      by blast
    show ?thesis
    proof (rule ex1I [of _ "Suc i"])
      show "Suc i < length (xs # xss) \<and> x \<in> set ((xs # xss) ! Suc i)" using i by simp
    next
      fix j assume j: "j < length (xs # xss) \<and> x \<in> set ((xs # xss) ! j)"
      show "j = Suc i"
      proof (cases j)
        case 0
        with j False show ?thesis by simp
      next
        case (Suc j')
        with j have "j' < length xss \<and> x \<in> set (xss ! j')" by auto
        from u [OF this] Suc show ?thesis by simp
      qed
    qed
  qed
qed

lemma placement_member:
  "(s, open_note) \<in> set es \<Longrightarrow> fret \<in> set (py_range f) \<Longrightarrow>
     (s * f + fret, placed_note open_note fret) \<in> set (placements f es)"
  by (auto simp: placements_def)

lemma placed_note_open_E:
  "placed_note \<lparr>Note.name = ''E'', pitch = 82.41\<rparr> 0 = \<lparr>Note.name = ''E'', pitch = 82.41\<rparr>"
  by (simp add: placed_note_def chromatic_table bind_def getitem_def get_pitch_def)

lemma placed_note_open_A:
  "placed_note \<lparr>Note.name = ''A'', pitch = 110.00\<rparr> 0 = \<lparr>Note.name = ''A'', pitch = 110.00\<rparr>"
  by (simp add: placed_note_def chromatic_table bind_def getitem_def get_pitch_def)

text \<open>
  Claim C7. Constructing a Guitar with \<open>nstrings = 6\<close>, \<open>frets = 24\<close> and the
  standard tuning succeeds, and yields a position-to-Note map whose keys are exactly
  the indices from 0 up to \<open>6 * 24\<close>, 144 positions, each of which appears in exactly
  one equivalence class of the Note-to-positions map (and once in it); position 0
  holds the open low E of 82.41 Hz and position 24 the second tuning note, A of
  110.00 Hz.
\<close>

theorem standard_guitar_positions:
  "\<exists>g. Guitar_init H 6 24 standard_tuning = Inr g
     \<and> dom (strings g) = {0..<144}
     \<and> card (dom (strings g)) = 144
     \<and> distinct (concat (map snd (Guitar.notes g)))
     \<and> set (concat (map snd (Guitar.notes g))) = {0..<144}
     \<and> (\<forall>p\<in>{0..<144}. \<exists>!i. i < length (Guitar.notes g) \<and> p \<in> set (snd (Guitar.notes g ! i)))
     \<and> strings g 0 = Some \<lparr>Note.name = ''E'', pitch = 82.41\<rparr>
     \<and> strings g 24 = Some \<lparr>Note.name = ''A'', pitch = 110.00\<rparr>"
proof -
  let ?fresh = "\<lparr>Guitar.name = ''guitar'', nstrings = 6, frets = 24, tuning = standard_tuning,
      strings = Map.empty, notes = []\<rparr>"
  let ?es = "enumerate_from 0 standard_tuning"
  let ?pns = "placements 24 ?es"
  let ?built = "fold (store_note H) ?pns ?fresh"
  have es: "?es = [(0, \<lparr>Note.name = ''E'', pitch = 82.41\<rparr>), (1, \<lparr>Note.name = ''A'', pitch = 110.00\<rparr>),
      (2, \<lparr>Note.name = ''D'', pitch = 146.83\<rparr>), (3, \<lparr>Note.name = ''G'', pitch = 196.00\<rparr>),
      (4, \<lparr>Note.name = ''B'', pitch = 246.94\<rparr>), (5, \<lparr>Note.name = ''E'', pitch = 329.63\<rparr>)]"
    by (simp add: standard_tuning_def)
  have known: "\<forall>e\<in>set ?es. Note.name (snd e) \<in> set (TheoryMaster.notes TheoryMaster_init)"
    unfolding es by (simp add: chromatic_table)
  have init: "Guitar_init H 6 24 standard_tuning = Inr ?built"
    unfolding Guitar_init_def Guitar_initiate_def
    using tuning_loop_known_names [OF known, where g = ?fresh and f = 24 and H = H] by simp
  have "length standard_tuning = 6" by (simp add: standard_tuning_def)
  with placements_positions [of 24 0 standard_tuning]
  have pos: "map fst ?pns = map int [0..<144]" by simp
  have img: "fst ` set ?pns = {0..<144}"
  proof -
    have "fst ` set ?pns = set (map fst ?pns)" by simp
    also have "\<dots> = int ` {0..<144}" by (simp only: pos set_map set_upt)
    also have "\<dots> = {0..<144}" by (simp add: image_int_atLeastLessThan)
    finally show ?thesis .
  qed
  have dom: "dom (strings ?built) = {0..<144}"
    by (simp only: dom_fold_store_note img) simp
  have card: "card (dom (strings ?built)) = 144"
    by (simp only: dom) simp
  have ms: "mset (concat (map snd (Guitar.notes ?built))) = mset (map int [0..<144])"
    by (simp only: positions_fold_store_note pos) simp
  have "distinct (map int [0..<144])" by (simp add: distinct_map)
  with ms have dist: "distinct (concat (map snd (Guitar.notes ?built)))"
    by (metis mset_eq_imp_distinct_iff)
  have cset: "set (concat (map snd (Guitar.notes ?built))) = {0..<144}"
  proof -
    from ms have "set (concat (map snd (Guitar.notes ?built))) = set (map int [0..<144])"
      by (rule mset_eq_setD)
    also have "\<dots> = {0..<144}" by (simp add: image_int_atLeastLessThan)
    finally show ?thesis .
  qed
  have uniq: "\<forall>p\<in>{0..<144}. \<exists>!i. i < length (Guitar.notes ?built) \<and> p \<in> set (snd (Guitar.notes ?built ! i))"
  proof
    fix p :: int assume "p \<in> {0..<144}"
    with cset have "p \<in> set (concat (map snd (Guitar.notes ?built)))" by simp
    from distinct_concat_unique_index [OF dist this]
    have "\<exists>!i. i < length (map snd (Guitar.notes ?built)) \<and> p \<in> set (map snd (Guitar.notes ?built) ! i)" .
    then show "\<exists>!i. i < length (Guitar.notes ?built) \<and> p \<in> set (snd (Guitar.notes ?built ! i))"
      by (simp cong: conj_cong)
  qed
  have dpos: "distinct (map fst ?pns)"
    by (simp only: pos) (simp add: distinct_map)
  have r0: "(0::int) \<in> set (py_range 24)"
    by (simp add: py_range_def image_int_atLeastLessThan)
  have "(0 * 24 + 0, placed_note \<lparr>Note.name = ''E'', pitch = 82.41\<rparr> 0) \<in> set ?pns"
    by (rule placement_member [OF _ r0]) (simp add: es)
  then have m0: "(0, \<lparr>Note.name = ''E'', pitch = 82.41\<rparr>) \<in> set ?pns"
    by (simp only: placed_note_open_E) simp
  have "(1 * 24 + 0, placed_note \<lparr>Note.name = ''A'', pitch = 110.00\<rparr> 0) \<in> set ?pns"
    by (rule placement_member [OF _ r0]) (simp add: es)
  then have m24: "(24, \<lparr>Note.name = ''A'', pitch = 110.00\<rparr>) \<in> set ?pns"
    by (simp only: placed_note_open_A) simp
  have s0: "strings ?built 0 = Some \<lparr>Note.name = ''E'', pitch = 82.41\<rparr>"
    by (rule strings_fold_store_note_placed [OF dpos m0])
  have s24: "strings ?built 24 = Some \<lparr>Note.name = ''A'', pitch = 110.00\<rparr>"
    by (rule strings_fold_store_note_placed [OF dpos m24])
  from init dom card dist cset uniq s0 s24 show ?thesis
    by (intro exI [of _ ?built] conjI)
qed


theorem standard_guitar_positions_witness:
  "\<exists>g. Guitar_init (\<lambda>k. k) 6 24 standard_tuning = Inr g
     \<and> (24::int) \<in> {0..<144}
     \<and> (\<exists>!i. i < length (Guitar.notes g) \<and> 24 \<in> set (snd (Guitar.notes g ! i)))"
proof -
  from standard_guitar_positions [of "\<lambda>k. k"] obtain g where
    g: "Guitar_init (\<lambda>k. k) 6 24 standard_tuning = Inr g" and
    u: "\<forall>p\<in>{0..<144}. \<exists>!i. i < length (Guitar.notes g) \<and> p \<in> set (snd (Guitar.notes g ! i))"
    by blast
  have m: "(24::int) \<in> {0..<144}" by simp
  from u m have "\<exists>!i. i < length (Guitar.notes g) \<and> 24 \<in> set (snd (Guitar.notes g ! i))"
    by (rule bspec)
  with g m show ?thesis by (intro exI [of _ g] conjI)
qed

end
